theory Spec2Isabelle
  imports Complex_Main "HOL-Library.Sublist"
begin

section \<open>Conventions of the embedding\<close>

text \<open>
  The development embeds the response parser (\<^verbatim>\<open>score_mappings.py\<close>,
  \<^verbatim>\<open>ai_auditor.py\<close>, \<^verbatim>\<open>ai_auditor_num.py\<close>) and the deviation analyzer
  (\<^verbatim>\<open>audit_scoring.py\<close>) of the consistency test.

  \<^item> A Python \<^verbatim>\<open>str\<close> is a \<^typ>\<open>string\<close>: a list of 8-bit characters, read as the code
    points 0..255. On these code points \<^verbatim>\<open>\d\<close> matches exactly the ten ASCII digits,
    \<^verbatim>\<open>str.lower\<close> shifts A..Z and the upper-case letters 192..222 (without 215) by 32, and
    \<^verbatim>\<open>str.isspace\<close> holds for 9..13, 28..32, 133 and 160.
  \<^item> A Python \<^verbatim>\<open>float\<close> is a \<^typ>\<open>rat\<close>: the arithmetic is exact, and
    \<^verbatim>\<open>round(x, 2)\<close> rounds the exact value to two decimals, a tie going to the even
    neighbour.
  \<^item> A Python \<^verbatim>\<open>dict\<close> is an association list in insertion order with distinct keys;
    assigning to a key that is present replaces the value in place, assigning to a new key
    appends.
  \<^item> An exception that leaves a function is a value \<^term>\<open>Inl e\<close> of a sum type; an exception
    caught inside it is the branch its handler takes.
\<close>

section \<open>Python strings\<close>

definition is_space :: "char \<Rightarrow> bool" where
  "is_space c = (let n = (of_char c :: nat) in
     (9 \<le> n \<and> n \<le> 13) \<or> (28 \<le> n \<and> n \<le> 32) \<or> n = 133 \<or> n = 160)"

definition lower_char :: "char \<Rightarrow> char" where
  "lower_char c = (let n = (of_char c :: nat) in
     if (65 \<le> n \<and> n \<le> 90) \<or> (192 \<le> n \<and> n \<le> 222 \<and> n \<noteq> 215)
     then char_of (n + 32) else c)"

definition lower :: "string \<Rightarrow> string" where
  "lower s = map lower_char s"

definition startswith :: "string \<Rightarrow> string \<Rightarrow> bool" where
  "startswith s p = prefix p s"

definition strip :: "string \<Rightarrow> string" where
  "strip s = rev (dropWhile is_space (rev (dropWhile is_space s)))"

definition rstrip_chars :: "string \<Rightarrow> string \<Rightarrow> string" where
  "rstrip_chars cs s = rev (dropWhile (\<lambda>c. c \<in> set cs) (rev s))"

text \<open>\<^verbatim>\<open>s.replace(c, '')\<close> for each character \<open>c\<close> of \<open>cs\<close> in turn.\<close>

definition remove_chars :: "string \<Rightarrow> string \<Rightarrow> string" where
  "remove_chars cs s = filter (\<lambda>c. c \<notin> set cs) s"

text \<open>\<^verbatim>\<open>s.split(c)\<close>: the pieces between the occurrences of \<open>c\<close>, never an empty list.\<close>

fun split_on :: "char \<Rightarrow> string \<Rightarrow> string list" where
  "split_on c [] = [[]]"
| "split_on c (x # xs) =
     (if x = c then [] # split_on c xs
      else (case split_on c xs of [] \<Rightarrow> [[x]] | l # ls \<Rightarrow> (x # l) # ls))"

text \<open>\<^verbatim>\<open>s.split(c, 1)\<close>: one piece when \<open>c\<close> does not occur, otherwise two.\<close>

definition split_once :: "char \<Rightarrow> string \<Rightarrow> string list" where
  "split_once c s =
     (if c \<in> set s then [takeWhile (\<lambda>x. x \<noteq> c) s, tl (dropWhile (\<lambda>x. x \<noteq> c) s)] else [s])"

text \<open>\<^verbatim>\<open>s.split()\<close>: the maximal runs of non-space characters; \<open>cur\<close> is the run being
  read, reversed.\<close>

fun split_ws_from :: "string \<Rightarrow> string \<Rightarrow> string list" where
  "split_ws_from cur [] = (if cur = [] then [] else [rev cur])"
| "split_ws_from cur (c # cs) =
     (if is_space c then (if cur = [] then split_ws_from [] cs else rev cur # split_ws_from [] cs)
      else split_ws_from (c # cur) cs)"

definition split_ws :: "string \<Rightarrow> string list" where
  "split_ws s = split_ws_from [] s"

fun join_with :: "string \<Rightarrow> string list \<Rightarrow> string" where
  "join_with sep [] = []"
| "join_with sep [w] = w"
| "join_with sep (w # ws) = w @ sep @ join_with sep ws"

text \<open>\<^verbatim>\<open>sub in s\<close>.\<close>

fun contains :: "string \<Rightarrow> string \<Rightarrow> bool" where
  "contains [] sub = (sub = [])"
| "contains (c # cs) sub = (prefix sub (c # cs) \<or> contains cs sub)"

text \<open>\<^verbatim>\<open>next((line for line in lines if p(line)), None)\<close> is \<^const>\<open>find\<close>; a string is
  truthy when it is not empty.\<close>

definition truthy :: "string option \<Rightarrow> bool" where
  "truthy l = (case l of None \<Rightarrow> False | Some s \<Rightarrow> s \<noteq> [])"

section \<open>Python dictionaries\<close>

fun dict_set :: "'k \<Rightarrow> 'v \<Rightarrow> ('k \<times> 'v) list \<Rightarrow> ('k \<times> 'v) list" where
  "dict_set k v [] = [(k, v)]"
| "dict_set k v (e # d) = (if fst e = k then (k, v) # d else e # dict_set k v d)"

definition dict_keys :: "('k \<times> 'v) list \<Rightarrow> 'k list" where
  "dict_keys d = map fst d"

definition dict_has :: "('k \<times> 'v) list \<Rightarrow> 'k \<Rightarrow> bool" where
  "dict_has d k = (k \<in> set (dict_keys d))"

section \<open>score\_mappings.py\<close>

definition SCORE_MAPPINGS :: "(string \<times> (string \<times> int) list) list" where
  "SCORE_MAPPINGS = [
    (''readability'', [(''highly readable'', 100), (''moderately readable'', 50), (''low readability'', 0)]),
    (''consistency'', [(''highly consistent'', 100), (''somewhat inconsistent'', 50), (''not consistent'', 0)]),
    (''modularity'', [(''excellent'', 100), (''average'', 50), (''poor'', 0)]),
    (''maintainability'', [(''high'', 100), (''moderate'', 50), (''low'', 0)]),
    (''reusability'', [(''high'', 100), (''moderate'', 50), (''low'', 0)]),
    (''redundancy'', [(''no redundancies'', 100), (''some redundancies'', 50), (''high redundancy'', 0)]),
    (''technical_debt'', [(''none'', 100), (''low'', 66), (''moderate'', 33), (''high'', 0)]),
    (''code_smells'', [(''none'', 100), (''low'', 66), (''moderate'', 33), (''high'', 0)]),
    (''completeness'', [(''fully functional'', 100), (''partially functional'', 50), (''not functional'', 0)]),
    (''edge_cases'', [(''excellently covered'', 100), (''partially covered'', 66), (''poorly covered'', 33), (''none covered'', 0)]),
    (''error_handling'', [(''robust'', 100), (''adequate'', 50), (''poor'', 0)]),
    (''efficiency'', [(''high'', 100), (''average'', 50), (''poor'', 0)]),
    (''scalability'', [(''high'', 100), (''moderate'', 50), (''not scalable'', 0)]),
    (''resource_utilization'', [(''optimal'', 100), (''acceptable'', 50), (''excessive'', 0)]),
    (''load_handling'', [(''excellent'', 100), (''good'', 66), (''average'', 33), (''poor'', 0)]),
    (''parallel_processing'', [(''fully supported'', 100), (''partially supported'', 50), (''not supported'', 0), (''not required'', 100)]),
    (''database_interaction_efficiency'', [(''optimized'', 100), (''sufficient'', 50), (''inefficient'', 0), (''not required'', 100)]),
    (''concurrency_management'', [(''robust'', 100), (''adequate'', 50), (''poor'', 0), (''not required'', 100)]),
    (''state_management_efficiency'', [(''optimal'', 100), (''adequate'', 50), (''problematic'', 0), (''not required'', 100)]),
    (''modularity_decoupling'', [(''highly modular'', 100), (''somewhat modular'', 50), (''monolithic'', 0)]),
    (''configuration_customization_ease'', [(''flexible'', 100), (''moderate'', 50), (''rigid'', 0)]),
    (''input_validation'', [(''strong'', 100), (''adequate'', 50), (''weak'', 0), (''not required'', 100)]),
    (''data_handling'', [(''secure'', 100), (''moderately secure'', 50), (''insecure'', 0), (''not required'', 100)]),
    (''authentication'', [(''robust'', 100), (''adequate'', 50), (''non-existent'', 0), (''not required'', 100)]),
    (''independence'', [(''multi-platform'', 100), (''limited platforms'', 50), (''single platform'', 25)]),
    (''integration'', [(''seamless'', 100), (''requires workarounds'', 50), (''incompatible'', 0)]),
    (''inline_comments'', [(''comprehensive'', 100), (''adequate'', 66), (''sparse'', 33), (''none'', 0)]),
    (''standards'', [(''fully compliant'', 100), (''partially compliant'', 50), (''non-compliant'', 0)]),
    (''design_patterns'', [(''extensive'', 100), (''moderate'', 66), (''rare'', 33), (''none'', 0)]),
    (''code_complexity'', [(''low'', 100), (''moderate'', 50), (''high'', 0)]),
    (''refactoring_opportunities'', [(''many'', 100), (''some'', 66), (''few'', 33), (''none'', 0)])]"

text \<open>The loop \<^verbatim>\<open>for key, score in mapping.items(): if value.startswith(key): return score\<close>
  with the final \<^verbatim>\<open>return 0\<close>.\<close>

fun first_match :: "(string \<times> int) list \<Rightarrow> string \<Rightarrow> int" where
  "first_match [] val = 0"
| "first_match ((key, score) # mapping) val =
     (if startswith val key then score else first_match mapping val)"

definition get_score :: "string \<Rightarrow> string \<Rightarrow> int" where
  "get_score attribute val =
     (case map_of SCORE_MAPPINGS attribute of
        None \<Rightarrow> 0
      | Some mapping \<Rightarrow> first_match mapping (lower val))"

section \<open>ai\_auditor\_num.py: numerical answers\<close>

definition is_digit :: "char \<Rightarrow> bool" where
  "is_digit c = (c \<in> set ''0123456789'')"

definition digit_val :: "char \<Rightarrow> nat" where
  "digit_val c = of_char c - 48"

definition digits_val :: "string \<Rightarrow> nat" where
  "digits_val s = foldl (\<lambda>a c. 10 * a + digit_val c) 0 s"

text \<open>
  \<^verbatim>\<open>float(s)\<close> on a string of digits and dots, the only strings it is called on: digits
  with at most one dot and at least one digit are a numeral, anything else raises
  \<^verbatim>\<open>ValueError\<close>, which is \<^const>\<open>None\<close> here.
\<close>

definition float_of_cleaned :: "string \<Rightarrow> rat option" where
  "float_of_cleaned s =
     (let ip = takeWhile is_digit s; rest = dropWhile is_digit s in
      case rest of
        [] \<Rightarrow> (if ip = [] then None else Some (of_nat (digits_val ip)))
      | c # fp \<Rightarrow>
          (if c = CHR ''.'' \<and> list_all is_digit fp \<and> (ip \<noteq> [] \<or> fp \<noteq> [])
           then Some (of_nat (digits_val ip) + of_nat (digits_val fp) / 10 ^ length fp)
           else None))"

text \<open>\<^verbatim>\<open>re.sub(r'[^\d.]', '', value)\<close>.\<close>

definition cleaned_value :: "string \<Rightarrow> string" where
  "cleaned_value val = filter (\<lambda>c. is_digit c \<or> c = CHR ''.'') val"

text \<open>\<^verbatim>\<open>_parse_numerical_value\<close>; the handler of \<^verbatim>\<open>ValueError\<close> returns \<^verbatim>\<open>None\<close>.\<close>

definition parse_numerical_value :: "string \<Rightarrow> rat option" where
  "parse_numerical_value val =
     (if cleaned_value val = [] then None
      else (case float_of_cleaned (cleaned_value val) of
              None \<Rightarrow> None
            | Some num_value \<Rightarrow> Some (max 0 (min 100 num_value))))"

section \<open>parse\_audit\_response\<close>

datatype pyval = PyNone | PyStr string | PyNum rat

type_synonym audit_data = "(string \<times> pyval) list"

definition schema_mapping :: "(string \<times> string) list" where
  "schema_mapping = [
    (''is_script'', ''0.''),
    (''is_script_explanation'', ''0.1.''),
    (''domain'', ''1.1.''),
    (''readability'', ''2.1.''),
    (''consistency'', ''2.2.''),
    (''modularity'', ''2.3.''),
    (''maintainability'', ''2.4.''),
    (''reusability'', ''2.5.''),
    (''redundancy'', ''2.6.''),
    (''technical_debt'', ''2.7.''),
    (''code_smells'', ''2.8.''),
    (''completeness'', ''3.1.''),
    (''edge_cases'', ''3.2.''),
    (''error_handling'', ''3.3.''),
    (''efficiency'', ''4.1.''),
    (''scalability'', ''4.2.''),
    (''resource_utilization'', ''4.3.''),
    (''load_handling'', ''4.4.''),
    (''parallel_processing'', ''4.5.''),
    (''database_interaction_efficiency'', ''4.6.''),
    (''concurrency_management'', ''4.7.''),
    (''state_management_efficiency'', ''4.8.''),
    (''modularity_decoupling'', ''4.9.''),
    (''configuration_customization_ease'', ''4.10.''),
    (''input_validation'', ''5.1.''),
    (''data_handling'', ''5.2.''),
    (''authentication'', ''5.3.''),
    (''package_dependencies'', ''5.4.''),
    (''independence'', ''6.1.''),
    (''integration'', ''6.2.''),
    (''inline_comments'', ''7.1.''),
    (''standards'', ''8.1.''),
    (''design_patterns'', ''8.2.''),
    (''code_complexity'', ''8.3.''),
    (''refactoring_opportunities'', ''8.4.'')]"

text \<open>The two nested helpers; the double quote is \<^verbatim>\<open>0x22\<close>, the single quote \<^verbatim>\<open>0x27\<close>.\<close>

definition sanitize_text :: "string \<Rightarrow> string" where
  "sanitize_text text =
     (let sanitized_text = rstrip_chars ''.'' (remove_chars [CHR 0x22, CHR 0x27, CHR ''['', CHR '']''] text) in
      if lower (strip sanitized_text) \<in> set [''na'', ''n/a'', ''not applicable'', ''not available'']
      then ''N/A'' else sanitized_text)"

definition sanitize_domain :: "string \<Rightarrow> string" where
  "sanitize_domain text =
     (let cleaned_text = remove_chars [CHR ''('', CHR '')'', CHR 0x27, CHR 0x22, CHR '',''] text;
          words = split_ws cleaned_text in
      if length words > 2 then join_with '' '' (take 2 words) else cleaned_text)"

text \<open>The text after the first colon of a line, \<^verbatim>\<open>parts[1]\<close> under the guard
  \<^verbatim>\<open>len(parts) > 1\<close>.\<close>

definition after_colon :: "string \<Rightarrow> string option" where
  "after_colon line =
     (let parts = split_once CHR '':'' line in
      if length parts > 1 then Some (parts ! 1) else None)"

text \<open>
  The gate at the head of both variants of \<^verbatim>\<open>parse_audit_response\<close>, word for word the
  same in the two files: \<^term>\<open>Some r\<close> is the early \<^verbatim>\<open>return\<close>.
\<close>

definition is_script_gate :: "string list \<Rightarrow> (audit_data \<times> nat) option" where
  "is_script_gate response_lines =
     (let is_script_line = find (\<lambda>line. startswith line ''0.'') response_lines in
      if truthy is_script_line then
        (case after_colon (the is_script_line) of
           None \<Rightarrow> None
         | Some answer \<Rightarrow>
             (if lower (strip answer) = ''no'' then
                (let explanation_line = find (\<lambda>line. startswith line ''0.1.'') response_lines;
                     explanation =
                       (if truthy explanation_line then
                          (case after_colon (the explanation_line) of
                             None \<Rightarrow> ''N/A''
                           | Some e \<Rightarrow> strip e)
                        else ''N/A'')
                 in Some ([(''is_script'', PyStr ''no''), (''is_script_explanation'', PyStr explanation)], 0))
              else None))
      else None)"

subsection \<open>ai\_auditor.py: textual answers\<close>

text \<open>
  The nested \<^verbatim>\<open>parse_response_line\<close>. Its branch for \<^verbatim>\<open>is_time_to_fix\<close> calls the nested
  \<^verbatim>\<open>parse_time_to_fix\<close>, which is the parameter \<open>parse_time_to_fix\<close> here: the branch is
  taken for the key \<^verbatim>\<open>time_to_fix_flag\<close> only.
\<close>

definition parse_response_line ::
  "(string \<Rightarrow> pyval) \<Rightarrow> string \<Rightarrow> string \<Rightarrow> string \<Rightarrow> pyval \<Rightarrow> bool \<Rightarrow> string \<times> pyval" where
  "parse_response_line parse_time_to_fix response_text point_key label dflt is_time_to_fix =
     (let response_line = find (\<lambda>line. startswith line label) (split_on CHR 0x0A response_text) in
      if truthy response_line then
        (case after_colon (the response_line) of
           None \<Rightarrow> (point_key, dflt)
         | Some answer \<Rightarrow>
             (let result = strip answer;
                  result' = (if point_key = ''domain'' then PyStr (sanitize_domain result)
                             else if is_time_to_fix then parse_time_to_fix result
                             else PyStr (sanitize_text result))
              in if result' \<noteq> dflt then (point_key, result') else (point_key, dflt)))
      else (point_key, dflt))"

text \<open>The loop over \<^verbatim>\<open>schema_mapping.items()\<close>; the state is \<^verbatim>\<open>audit_data\<close> and
  \<^verbatim>\<open>none_response_count\<close>.\<close>

definition parse_section ::
  "(string \<Rightarrow> pyval) \<Rightarrow> string \<Rightarrow> audit_data \<times> nat \<Rightarrow> string \<times> string \<Rightarrow> audit_data \<times> nat" where
  "parse_section parse_time_to_fix response_text st entry =
     (let key = fst entry; label = snd entry; data = fst st; none_response_count = snd st in
      if key = ''is_script'' \<and> dict_has data ''is_script'' then st
      else
        (let r = parse_response_line parse_time_to_fix response_text key (strip label) PyNone
                   (key = ''time_to_fix_flag'');
             point_key = fst r; val = snd r;
             none_response_count' =
               (if val = PyStr ''None'' then none_response_count + 1 else none_response_count)
         in (dict_set point_key val data, none_response_count')))"

definition parse_sections ::
  "(string \<Rightarrow> pyval) \<Rightarrow> string \<Rightarrow> (string \<times> string) list \<Rightarrow> audit_data \<times> nat \<Rightarrow> audit_data \<times> nat" where
  "parse_sections parse_time_to_fix response_text schema st =
     foldl (parse_section parse_time_to_fix response_text) st schema"

definition parse_audit_response :: "(string \<Rightarrow> pyval) \<Rightarrow> string \<Rightarrow> audit_data \<times> nat" where
  "parse_audit_response parse_time_to_fix response_text =
     (case is_script_gate (split_on CHR 0x0A response_text) of
        Some r \<Rightarrow> r
      | None \<Rightarrow> parse_sections parse_time_to_fix response_text schema_mapping ([], 0))"

subsection \<open>ai\_auditor\_num.py: numerical answers\<close>

definition num_value :: "string \<Rightarrow> pyval" where
  "num_value s = (case parse_numerical_value s of None \<Rightarrow> PyNone | Some x \<Rightarrow> PyNum x)"

definition parse_section_num :: "string list \<Rightarrow> audit_data \<Rightarrow> string \<times> string \<Rightarrow> audit_data" where
  "parse_section_num response_lines data entry =
     (let key = fst entry; label = snd entry in
      if key = ''is_script'' \<and> dict_has data ''is_script'' then data
      else
        (let response_line = find (\<lambda>line. startswith line label) response_lines in
         if truthy response_line then
           (case after_colon (the response_line) of
              None \<Rightarrow> data
            | Some answer \<Rightarrow>
                (let val = strip answer;
                     val' = (if key = ''domain'' then PyStr (sanitize_domain val)
                             else if key \<notin> set [''is_script'', ''is_script_explanation'', ''package_dependencies'']
                             then num_value val
                             else PyStr val)
                 in dict_set key val' data))
         else data))"

definition parse_sections_num :: "string list \<Rightarrow> (string \<times> string) list \<Rightarrow> audit_data \<Rightarrow> audit_data" where
  "parse_sections_num response_lines schema data =
     foldl (parse_section_num response_lines) data schema"

text \<open>The two trailing blocks that look for a line mentioning a line count.\<close>

definition add_line_count :: "string \<Rightarrow> string \<Rightarrow> string list \<Rightarrow> audit_data \<Rightarrow> audit_data" where
  "add_line_count key phrase response_lines data =
     (let count_line = find (\<lambda>line. contains (lower line) phrase) response_lines in
      if truthy count_line then
        (case after_colon (the count_line) of
           None \<Rightarrow> data
         | Some answer \<Rightarrow> dict_set key (num_value answer) data)
      else data)"

definition parse_audit_response_num :: "string \<Rightarrow> audit_data \<times> nat" where
  "parse_audit_response_num response_text =
     (let response_lines = split_on CHR 0x0A response_text;
          none_response_count = 0 in
      case is_script_gate response_lines of
        Some r \<Rightarrow> r
      | None \<Rightarrow>
          (let data = parse_sections_num response_lines schema_mapping [];
               data1 = add_line_count ''lines_of_code'' ''lines of code'' response_lines data;
               data2 = add_line_count ''lines_of_doc'' ''lines of documentation'' response_lines data1
           in (data2, none_response_count)))"

section \<open>audit\_scoring.py: calculate\_deviations\<close>

text \<open>
  A row of the results is a dictionary with the key \<^verbatim>\<open>filename\<close> and one integer per
  metric key; \<^verbatim>\<open>int(result[field])\<close> raises \<^verbatim>\<open>KeyError\<close> when the row lacks the key.
\<close>

record audit_row =
  filename :: string
  scores :: "(string \<times> int) list"

datatype py_error = KeyError string

record metric_info =
  mi_mean :: rat
  mi_min :: int
  mi_max :: int
  mi_range :: int
  mi_avg_deviation_percent :: rat
  mi_values_per_cycle :: "int list"

record file_stats =
  fs_metrics :: "(string \<times> metric_info) list"
  fs_total_deviation :: rat
  fs_max_deviation :: rat
  fs_most_inconsistent_metric :: "string option"
  fs_avg_total_deviation :: rat

record overall_metric =
  om_total_deviation :: rat
  om_count :: nat
  om_avg_deviation :: rat

text \<open>The nested dictionary \<^verbatim>\<open>deviations\<close>; the three entries of \<^verbatim>\<open>overall\<close> are the fields
  named \<open>overall_\<dots>\<close>.\<close>

record deviations =
  per_file :: "(string \<times> file_stats) list"
  overall_metrics :: "(string \<times> overall_metric) list"
  overall_total_deviation :: rat
  overall_avg_total_deviation :: rat

definition numeric_fields :: "string list" where
  "numeric_fields = [
    ''readability'', ''consistency'', ''modularity'', ''maintainability'', ''reusability'',
    ''redundancy'', ''technical_debt'', ''code_smells'', ''completeness'', ''edge_cases'',
    ''error_handling'', ''efficiency'', ''scalability'', ''resource_utilization'',
    ''load_handling'', ''parallel_processing'', ''database_interaction_efficiency'',
    ''concurrency_management'', ''state_management_efficiency'', ''modularity_decoupling'',
    ''configuration_customization_ease'', ''input_validation'', ''data_handling'',
    ''authentication'', ''independence'', ''integration'', ''inline_comments'', ''standards'',
    ''design_patterns'', ''code_complexity'', ''refactoring_opportunities'']"

text \<open>\<^verbatim>\<open>round(x, 2)\<close>.\<close>

definition round_half_even :: "rat \<Rightarrow> int" where
  "round_half_even x =
     (let f = \<lfloor>x\<rfloor>; d = x - of_int f in
      if d < 1 / 2 then f else if 1 / 2 < d then f + 1 else if even f then f else f + 1)"

definition round2 :: "rat \<Rightarrow> rat" where
  "round2 x = of_int (round_half_even (x * 100)) / 100"

text \<open>The grouping loop: \<^verbatim>\<open>files_data[filename].append(row)\<close>, the list created on the first
  row of a file.\<close>

definition add_row :: "(string \<times> audit_row list) list \<Rightarrow> audit_row \<Rightarrow> (string \<times> audit_row list) list" where
  "add_row files_data row =
     (case map_of files_data (filename row) of
        None \<Rightarrow> dict_set (filename row) [row] files_data
      | Some rows \<Rightarrow> dict_set (filename row) (rows @ [row]) files_data)"

definition group_by_filename :: "audit_row list \<Rightarrow> (string \<times> audit_row list) list" where
  "group_by_filename results = foldl add_row [] results"

text \<open>\<^verbatim>\<open>[int(result[field]) for result in file_results]\<close>.\<close>

fun field_values :: "audit_row list \<Rightarrow> string \<Rightarrow> py_error + int list" where
  "field_values [] field = Inr []"
| "field_values (result # file_results) field =
     (case map_of (scores result) field of
        None \<Rightarrow> Inl (KeyError field)
      | Some v \<Rightarrow>
          (case field_values file_results field of
             Inl e \<Rightarrow> Inl e
           | Inr vs \<Rightarrow> Inr (v # vs)))"

definition mean_value :: "int list \<Rightarrow> rat" where
  "mean_value vals = of_int (sum_list vals) / of_nat (length vals)"

text \<open>The variable \<^verbatim>\<open>avg_deviation\<close>, before any rounding.\<close>

definition avg_deviation :: "int list \<Rightarrow> rat" where
  "avg_deviation vals =
     (if mean_value vals > 0 then
        (let deviations_from_mean = map (\<lambda>v. \<bar>of_int v - mean_value vals\<bar> / mean_value vals * 100) vals
         in sum_list deviations_from_mean / of_nat (length deviations_from_mean))
      else 0)"

text \<open>\<^verbatim>\<open>max(values)\<close> and \<^verbatim>\<open>min(values)\<close> of a list with head \<open>v\<close> and tail \<open>vs\<close>.\<close>

definition max_value :: "int \<Rightarrow> int list \<Rightarrow> int" where
  "max_value v vs = fold max vs v"

definition min_value :: "int \<Rightarrow> int list \<Rightarrow> int" where
  "min_value v vs = fold min vs v"

definition make_metric_info :: "int \<Rightarrow> int list \<Rightarrow> metric_info" where
  "make_metric_info v vs =
     \<lparr>mi_mean = round2 (mean_value (v # vs)),
      mi_min = min_value v vs,
      mi_max = max_value v vs,
      mi_range = max_value v vs - min_value v vs,
      mi_avg_deviation_percent = round2 (avg_deviation (v # vs)),
      mi_values_per_cycle = v # vs\<rparr>"

text \<open>
  The body of the loop over \<^verbatim>\<open>numeric_fields\<close>, on the entry of the file in \<^verbatim>\<open>per_file\<close>
  and on \<^verbatim>\<open>overall['metrics']\<close>; an empty list of values is the \<^verbatim>\<open>continue\<close>.
\<close>

definition update_file_stats :: "string \<Rightarrow> int list \<Rightarrow> file_stats \<Rightarrow> file_stats" where
  "update_file_stats field vals fs =
     (case vals of
        [] \<Rightarrow> fs
      | v # vs \<Rightarrow>
          (let fs1 = fs\<lparr>fs_metrics := dict_set field (make_metric_info v vs) (fs_metrics fs)\<rparr>;
               fs2 = (if avg_deviation vals > fs_max_deviation fs1
                      then fs1\<lparr>fs_max_deviation := avg_deviation vals,
                               fs_most_inconsistent_metric := Some field\<rparr>
                      else fs1)
           in fs2\<lparr>fs_total_deviation := fs_total_deviation fs2 + avg_deviation vals\<rparr>))"

definition bump_overall_metric :: "rat \<Rightarrow> overall_metric \<Rightarrow> overall_metric" where
  "bump_overall_metric d m =
     m\<lparr>om_total_deviation := om_total_deviation m + d, om_count := om_count m + 1\<rparr>"

definition update_overall_metrics ::
  "string \<Rightarrow> int list \<Rightarrow> (string \<times> overall_metric) list \<Rightarrow> (string \<times> overall_metric) list" where
  "update_overall_metrics field vals metrics =
     (case vals of
        [] \<Rightarrow> metrics
      | v # vs \<Rightarrow>
          map (\<lambda>e. if fst e = field then (fst e, bump_overall_metric (avg_deviation vals) (snd e)) else e)
            metrics)"

fun process_fields ::
  "string list \<Rightarrow> audit_row list \<Rightarrow> file_stats \<times> (string \<times> overall_metric) list \<Rightarrow>
   py_error + file_stats \<times> (string \<times> overall_metric) list" where
  "process_fields [] file_results st = Inr st"
| "process_fields (field # more_fields) file_results st =
     (case field_values file_results field of
        Inl e \<Rightarrow> Inl e
      | Inr vals \<Rightarrow>
          process_fields more_fields file_results
            (update_file_stats field vals (fst st), update_overall_metrics field vals (snd st)))"

definition initial_file_stats :: file_stats where
  "initial_file_stats =
     \<lparr>fs_metrics = [], fs_total_deviation = 0, fs_max_deviation = 0,
      fs_most_inconsistent_metric = None, fs_avg_total_deviation = 0\<rparr>"

text \<open>One round of the loop over \<^verbatim>\<open>files_data.items()\<close>.\<close>

definition process_file :: "string \<Rightarrow> audit_row list \<Rightarrow> deviations \<Rightarrow> py_error + deviations" where
  "process_file fname file_results dev =
     (case process_fields numeric_fields file_results (initial_file_stats, overall_metrics dev) of
        Inl e \<Rightarrow> Inl e
      | Inr st \<Rightarrow>
          (let num_metrics = length numeric_fields;
               fs = (fst st)\<lparr>fs_avg_total_deviation :=
                       round2 (fs_total_deviation (fst st) / of_nat num_metrics)\<rparr>
           in Inr (dev\<lparr>per_file := dict_set fname fs (per_file dev),
                        overall_metrics := snd st,
                        overall_total_deviation :=
                          overall_total_deviation dev + fs_avg_total_deviation fs\<rparr>)))"

fun process_files :: "(string \<times> audit_row list) list \<Rightarrow> deviations \<Rightarrow> py_error + deviations" where
  "process_files [] dev = Inr dev"
| "process_files (entry # files_data) dev =
     (case process_file (fst entry) (snd entry) dev of
        Inl e \<Rightarrow> Inl e
      | Inr dev' \<Rightarrow> process_files files_data dev')"

definition average_overall_metric :: "overall_metric \<Rightarrow> overall_metric" where
  "average_overall_metric m =
     (if om_count m > 0
      then m\<lparr>om_avg_deviation := round2 (om_total_deviation m / of_nat (om_count m))\<rparr>
      else m)"

definition initial_deviations :: deviations where
  "initial_deviations =
     \<lparr>per_file = [],
      overall_metrics =
        foldl (\<lambda>d field. dict_set field
                 \<lparr>om_total_deviation = 0, om_count = 0, om_avg_deviation = 0\<rparr> d) [] numeric_fields,
      overall_total_deviation = 0,
      overall_avg_total_deviation = 0\<rparr>"

definition calculate_deviations :: "audit_row list \<Rightarrow> py_error + deviations" where
  "calculate_deviations results =
     (let files_data = group_by_filename results in
      case process_files files_data initial_deviations of
        Inl e \<Rightarrow> Inl e
      | Inr dev \<Rightarrow>
          (let num_files = length files_data in
           if num_files > 0 then
             Inr (dev\<lparr>overall_avg_total_deviation :=
                         round2 (overall_total_deviation dev / of_nat num_files),
                       overall_metrics :=
                         map (\<lambda>e. (fst e, average_overall_metric (snd e))) (overall_metrics dev)\<rparr>)
           else Inr dev))"

text \<open>Reading the report: \<^verbatim>\<open>deviations['per_file'][fname]\<close> and the list of a file's values
  for a metric, in the order of the rows.\<close>

definition file_report :: "audit_row list \<Rightarrow> string \<Rightarrow> file_stats option" where
  "file_report results fname =
     (case calculate_deviations results of
        Inl e \<Rightarrow> None
      | Inr dev \<Rightarrow> map_of (per_file dev) fname)"

definition file_rows :: "audit_row list \<Rightarrow> string \<Rightarrow> audit_row list" where
  "file_rows results fname = filter (\<lambda>row. filename row = fname) results"

definition metric_values :: "audit_row list \<Rightarrow> string \<Rightarrow> string \<Rightarrow> int list" where
  "metric_values results fname field =
     map (\<lambda>row. the (map_of (scores row) field)) (file_rows results fname)"

definition complete_row :: "audit_row \<Rightarrow> bool" where
  "complete_row row = list_all (\<lambda>field. map_of (scores row) field \<noteq> None) numeric_fields"

section \<open>Quantities the specification speaks of\<close>

text \<open>
  The extracted raw answer of a section label: the text after the first colon of the first
  line that starts with the label, stripped, as both variants compute it before they
  interpret it; and the number of schema fields whose raw answer is the string \<open>None\<close>.
\<close>

definition raw_answer :: "string \<Rightarrow> string \<Rightarrow> string option" where
  "raw_answer response_text label =
     (let response_line = find (\<lambda>line. startswith line label) (split_on CHR 0x0A response_text) in
      if truthy response_line then map_option strip (after_colon (the response_line)) else None)"

definition none_answers :: "string \<Rightarrow> nat" where
  "none_answers response_text =
     length (filter (\<lambda>entry. raw_answer response_text (snd entry) = Some ''None'') schema_mapping)"

text \<open>The answer of a field of the textual variant after its sanitizing.\<close>

definition sanitized_answer :: "string \<Rightarrow> string \<Rightarrow> string option" where
  "sanitized_answer response_text key =
     (case map_of schema_mapping key of
        None \<Rightarrow> None
      | Some label \<Rightarrow>
          map_option (\<lambda>a. if key = ''domain'' then sanitize_domain a else sanitize_text a)
            (raw_answer response_text label))"



section \<open>Properties of the numerical answers\<close>

lemma cleaned_value_chars: "c \<in> set (cleaned_value s) \<Longrightarrow> is_digit c \<or> c = CHR ''.''"
  by (auto simp: cleaned_value_def)

lemma dot_not_digit: "\<not> is_digit CHR ''.''"
  by (simp add: is_digit_def)

lemma float_of_cleaned_nonneg: "float_of_cleaned c = Some x \<Longrightarrow> 0 \<le> x"
  by (auto simp: float_of_cleaned_def Let_def split: list.splits if_splits)

lemma parse_numerical_value_range:
  "parse_numerical_value s = Some x \<Longrightarrow> 0 \<le> x \<and> x \<le> 100"
  by (auto simp: parse_numerical_value_def split: if_splits option.splits)

lemma count_dot_digits: "list_all is_digit xs \<Longrightarrow> count_list xs CHR ''.'' = 0"
  by (induction xs) (auto simp: dot_not_digit)

lemma takeWhile_digits_all: "list_all is_digit ip \<Longrightarrow> takeWhile is_digit (ip @ CHR ''.'' # fp) = ip"
  by (induction ip) (auto simp: dot_not_digit)
lemma dropWhile_digits_all: "list_all is_digit ip \<Longrightarrow> dropWhile is_digit (ip @ CHR ''.'' # fp) = CHR ''.'' # fp"
  by (induction ip) (auto simp: dot_not_digit)
lemma takeWhile_digits_only: "list_all is_digit ip \<Longrightarrow> takeWhile is_digit ip = ip"
  by (induction ip) auto
lemma dropWhile_digits_only: "list_all is_digit ip \<Longrightarrow> dropWhile is_digit ip = []"
  by (induction ip) auto

lemma float_of_cleaned_None_iff:
  assumes "\<forall>c\<in>set cs. is_digit c \<or> c = CHR ''.''"
  shows "float_of_cleaned cs = None \<longleftrightarrow> (\<not> (\<exists>c\<in>set cs. is_digit c) \<or> 1 < count_list cs CHR ''.'')"
proof -
  define ip where "ip = takeWhile is_digit cs"
  define rest where "rest = dropWhile is_digit cs"
  have cs: "cs = ip @ rest" by (simp add: ip_def rest_def)
  have ip: "list_all is_digit ip" unfolding ip_def list_all_iff by (auto dest: set_takeWhileD)
  show ?thesis
  proof (cases rest)
    case Nil
    then have "cs = ip" using cs by simp
    with ip have all: "list_all is_digit cs" by simp
    have "float_of_cleaned cs = None \<longleftrightarrow> cs = []"
      using all by (simp add: float_of_cleaned_def takeWhile_digits_only dropWhile_digits_only)
    moreover have "(\<exists>c\<in>set cs. is_digit c) \<longleftrightarrow> cs \<noteq> []"
      using all by (cases cs) (auto simp: list_all_iff)
    ultimately show ?thesis using count_dot_digits[OF all] by simp
  next
    case (Cons d fp)
    have "\<not> is_digit d" using Cons hd_dropWhile[of is_digit cs] unfolding rest_def by (metis list.sel(1) list.distinct(1))
    moreover have "d \<in> set cs" using cs Cons by simp
    ultimately have d: "d = CHR ''.''" using assms by blast
    have fpc: "\<forall>c\<in>set fp. is_digit c \<or> c = CHR ''.''" using assms cs Cons by auto
    have cnt: "count_list cs CHR ''.'' = 1 + count_list fp CHR ''.''"
      using cs Cons d count_dot_digits[OF ip] by simp
    have fp_iff: "list_all is_digit fp \<longleftrightarrow> count_list fp CHR ''.'' = 0"
      using fpc by (induction fp) (auto simp: dot_not_digit)
    have dig: "(\<exists>c\<in>set cs. is_digit c) \<longleftrightarrow> ip \<noteq> [] \<or> (\<exists>c\<in>set fp. is_digit c)"
      using cs Cons d ip by (cases ip) (auto simp: dot_not_digit list_all_iff)
    have "float_of_cleaned cs = None \<longleftrightarrow> \<not> (list_all is_digit fp \<and> (ip \<noteq> [] \<or> fp \<noteq> []))"
      using Cons d by (simp add: float_of_cleaned_def Let_def ip_def[symmetric] rest_def[symmetric])
    also have "\<dots> \<longleftrightarrow> (\<not> (\<exists>c\<in>set cs. is_digit c) \<or> 1 < count_list cs CHR ''.'')"
    proof (cases "list_all is_digit fp")
      case True
      then have "count_list fp CHR ''.'' = 0" using fp_iff by simp
      moreover have "(\<exists>c\<in>set fp. is_digit c) \<longleftrightarrow> fp \<noteq> []" using True by (cases fp) (auto simp: list_all_iff)
      ultimately show ?thesis using True cnt dig by simp
    next
      case False
      then have "count_list fp CHR ''.'' \<noteq> 0" using fp_iff by simp
      then show ?thesis using False cnt by simp
    qed
    finally show ?thesis .
  qed
qed

lemma cleaned_value_digit: "(\<exists>c\<in>set (cleaned_value s). is_digit c) \<longleftrightarrow> (\<exists>c\<in>set s. is_digit c)"
  by (auto simp: cleaned_value_def)

lemma cleaned_value_dots: "count_list (cleaned_value s) CHR ''.'' = count_list s CHR ''.''"
  unfolding cleaned_value_def by (induction s) auto

lemma parse_numerical_value_None_iff:
  "parse_numerical_value s = None \<longleftrightarrow> (\<not> (\<exists>c\<in>set s. is_digit c) \<or> 1 < count_list s CHR ''.'')"
proof (cases "cleaned_value s = []")
  case True
  then have "\<not> (\<exists>c\<in>set (cleaned_value s). is_digit c)" by simp
  then have nd: "\<not> (\<exists>c\<in>set s. is_digit c)" unfolding cleaned_value_digit .
  show ?thesis using nd True by (simp add: parse_numerical_value_def)
next
  case False
  have "parse_numerical_value s = None \<longleftrightarrow> float_of_cleaned (cleaned_value s) = None"
    using False by (simp add: parse_numerical_value_def split: option.splits)
  then show ?thesis
    using float_of_cleaned_None_iff[of "cleaned_value s"] cleaned_value_chars[of _ s]
    by (simp add: cleaned_value_digit cleaned_value_dots)
qed

lemma float_of_cleaned_integer:
  "list_all is_digit ip \<Longrightarrow> ip \<noteq> [] \<Longrightarrow> float_of_cleaned ip = Some (of_nat (digits_val ip))"
  by (simp add: float_of_cleaned_def takeWhile_digits_only dropWhile_digits_only)

lemma float_of_cleaned_fraction:
  "list_all is_digit ip \<Longrightarrow> list_all is_digit fp \<Longrightarrow> ip \<noteq> [] \<or> fp \<noteq> [] \<Longrightarrow>
   float_of_cleaned (ip @ CHR ''.'' # fp) = Some (of_nat (digits_val ip) + of_nat (digits_val fp) / 10 ^ length fp)"
  by (simp add: float_of_cleaned_def takeWhile_digits_all dropWhile_digits_all)

text \<open>
  C4, as the code has it. \<^const>\<open>parse_numerical_value\<close> keeps the digits and dots of the answer.
  It is unset when nothing remains, and also when what remains is no decimal numeral: exactly
  when the answer has no digit or more than one dot. Otherwise it is the numeral read in
  base ten, clamped to the range from 0 to 100. The answer \<open>47\<close> gives 47 and \<open>abc\<close> is unset;
  the function is total, so no exception leaves it.
\<close>

theorem parse_numerical_value_cases:
  "(cleaned_value s = [] \<longrightarrow> parse_numerical_value s = None)
   \<and> (parse_numerical_value s = None \<longleftrightarrow>
        (\<not> (\<exists>c\<in>set s. is_digit c) \<or> 1 < count_list s CHR ''.''))
   \<and> (\<forall>ip. cleaned_value s = ip \<and> list_all is_digit ip \<and> ip \<noteq> [] \<longrightarrow>
         parse_numerical_value s = Some (max 0 (min 100 (of_nat (digits_val ip)))))
   \<and> (\<forall>ip fp. cleaned_value s = ip @ CHR ''.'' # fp \<and> list_all is_digit ip \<and> list_all is_digit fp
         \<and> (ip \<noteq> [] \<or> fp \<noteq> []) \<longrightarrow>
         parse_numerical_value s =
           Some (max 0 (min 100 (of_nat (digits_val ip) + of_nat (digits_val fp) / 10 ^ length fp))))
   \<and> (\<forall>x. parse_numerical_value s = Some x \<longrightarrow> 0 \<le> x \<and> x \<le> 100)
   \<and> parse_numerical_value ''47'' = Some 47
   \<and> parse_numerical_value ''abc'' = None"
proof (intro conjI allI impI)
  show "parse_numerical_value s = None" if "cleaned_value s = []"
    using that by (simp add: parse_numerical_value_def)
  show "parse_numerical_value s = None \<longleftrightarrow>
        (\<not> (\<exists>c\<in>set s. is_digit c) \<or> 1 < count_list s CHR ''.'')"
    by (rule parse_numerical_value_None_iff)
  show "parse_numerical_value s = Some (max 0 (min 100 (of_nat (digits_val ip))))"
    if "cleaned_value s = ip \<and> list_all is_digit ip \<and> ip \<noteq> []" for ip
    using that float_of_cleaned_integer[of ip] by (simp add: parse_numerical_value_def)
  show "parse_numerical_value s =
          Some (max 0 (min 100 (of_nat (digits_val ip) + of_nat (digits_val fp) / 10 ^ length fp)))"
    if "cleaned_value s = ip @ CHR ''.'' # fp \<and> list_all is_digit ip \<and> list_all is_digit fp
         \<and> (ip \<noteq> [] \<or> fp \<noteq> [])" for ip fp
    using that float_of_cleaned_fraction[of ip fp] by (simp add: parse_numerical_value_def)
  show "0 \<le> x" "x \<le> 100" if "parse_numerical_value s = Some x" for x
    using parse_numerical_value_range[OF that] by simp_all
  show "parse_numerical_value ''47'' = Some 47" by code_simp
  show "parse_numerical_value ''abc'' = None" by code_simp
qed

theorem parse_numerical_value_cases_witness:
  "cleaned_value ''abc'' = [] \<and> parse_numerical_value ''abc'' = None
   \<and> cleaned_value ''about 47%'' = ''47'' \<and> list_all is_digit ''47''
   \<and> parse_numerical_value ''about 47%'' = Some 47
   \<and> cleaned_value ''7.25 points'' = ''7'' @ CHR ''.'' # ''25'' \<and> list_all is_digit ''25''
   \<and> parse_numerical_value ''7.25 points'' = Some (29 / 4)"
proof -
  have a: "cleaned_value ''abc'' = []" by code_simp
  have b: "cleaned_value ''about 47%'' = ''47''" by code_simp
  have b': "list_all is_digit ''47''" by code_simp
  have c: "cleaned_value ''7.25 points'' = ''7'' @ CHR ''.'' # ''25''" by code_simp
  have c7: "list_all is_digit ''7''" by code_simp
  have c25: "list_all is_digit ''25''" by code_simp
  have v47: "max 0 (min 100 (of_nat (digits_val ''47''))) = (47 :: rat)" by code_simp
  have v725: "max 0 (min 100 (of_nat (digits_val ''7'') + of_nat (digits_val ''25'') / 10 ^ length ''25''))
              = (29 / 4 :: rat)" by code_simp
  have r1: "parse_numerical_value ''abc'' = None"
    by (rule parse_numerical_value_cases[of "''abc''", THEN conjunct1, rule_format, OF a])
  have "parse_numerical_value ''about 47%'' = Some (max 0 (min 100 (of_nat (digits_val ''47''))))"
    by (rule parse_numerical_value_cases[of "''about 47%''", THEN conjunct2, THEN conjunct2,
          THEN conjunct1, rule_format, of "''47''"]) (intro conjI b b', simp)
  then have r2: "parse_numerical_value ''about 47%'' = Some 47" unfolding v47 .
  have "parse_numerical_value ''7.25 points'' =
          Some (max 0 (min 100 (of_nat (digits_val ''7'') + of_nat (digits_val ''25'') / 10 ^ length ''25'')))"
    by (rule parse_numerical_value_cases[of "''7.25 points''", THEN conjunct2, THEN conjunct2,
          THEN conjunct2, THEN conjunct1, rule_format, of "''7''" "''25''"])
       (intro conjI c c7 c25, simp)
  then have r3: "parse_numerical_value ''7.25 points'' = Some (29 / 4)" unfolding v725 .
  show ?thesis by (intro conjI a b b' c c25 r1 r2 r3)
qed

text \<open>
  C4 as stated promises a number whenever a character remains after the stripping. The answers
  \<open>47. Good.\<close> and \<open>1.2.3\<close> keep the characters \<open>47..\<close> and \<open>1.2.3\<close>, which
  \<^verbatim>\<open>float\<close> rejects, and are unset.
\<close>

theorem parse_numerical_value_remainder_unset:
  "cleaned_value ''47. Good.'' = ''47..'' \<and> parse_numerical_value ''47. Good.'' = None
   \<and> cleaned_value ''1.2.3'' = ''1.2.3'' \<and> parse_numerical_value ''1.2.3'' = None"
  by code_simp

text \<open>
  C10. \<^const>\<open>parse_numerical_value\<close> never returns a negative number. The minus sign is not a
  digit or a dot, so it is stripped with the rest, and the numeral that \<^verbatim>\<open>float\<close> reads is
  never negative: the lower bound of the clamp is not reached by a negative value. The answer
  \<open>-20\<close> gives 20.
\<close>

theorem parse_numerical_value_never_negative:
  "(\<forall>x. parse_numerical_value s = Some x \<longrightarrow> 0 \<le> x)
   \<and> (\<forall>x. float_of_cleaned (cleaned_value s) = Some x \<longrightarrow> 0 \<le> x \<and> max 0 (min 100 x) = min 100 x)
   \<and> CHR ''-'' \<notin> set (cleaned_value s)
   \<and> parse_numerical_value ''-20'' = Some 20"
proof (intro conjI allI impI)
  show "0 \<le> x" if "parse_numerical_value s = Some x" for x
    using parse_numerical_value_range[OF that] by simp
  show "0 \<le> x" if "float_of_cleaned (cleaned_value s) = Some x" for x
    using that by (rule float_of_cleaned_nonneg)
  show "max 0 (min 100 x) = min 100 x" if "float_of_cleaned (cleaned_value s) = Some x" for x
    using float_of_cleaned_nonneg[OF that] by simp
  show "CHR ''-'' \<notin> set (cleaned_value s)"
    by (auto simp: cleaned_value_def is_digit_def)
  show "parse_numerical_value ''-20'' = Some 20" by code_simp
qed

theorem parse_numerical_value_never_negative_witness:
  "parse_numerical_value ''-20'' = Some 20 \<and> (0 :: rat) \<le> 20
   \<and> float_of_cleaned (cleaned_value ''-20'') = Some 20 \<and> max 0 (min 100 20) = min 100 (20 :: rat)"
proof -
  note T = parse_numerical_value_never_negative[of "''-20''"]
  have f: "float_of_cleaned (cleaned_value ''-20'') = Some 20" by code_simp
  have p: "parse_numerical_value ''-20'' = Some 20"
    by (rule T[THEN conjunct2, THEN conjunct2, THEN conjunct2])
  have q: "(0 :: rat) \<le> 20"
    by (rule T[THEN conjunct1, rule_format, OF p])
  have r: "max 0 (min 100 20) = min 100 (20 :: rat)"
    by (rule T[THEN conjunct2, THEN conjunct1, rule_format, OF f, THEN conjunct2])
  show ?thesis by (intro conjI p q f r)
qed

section \<open>Properties of the score table\<close>

lemma first_match_no_match:
  "\<forall>e\<in>set mapping. \<not> startswith val (fst e) \<Longrightarrow> first_match mapping val = 0"
  by (induction mapping val rule: first_match.induct) auto

lemma first_match_first:
  "i < length mapping \<Longrightarrow> startswith val (fst (mapping ! i)) \<Longrightarrow>
   \<forall>j<i. \<not> startswith val (fst (mapping ! j)) \<Longrightarrow>
   first_match mapping val = snd (mapping ! i)"
proof (induction mapping val arbitrary: i rule: first_match.induct)
  case (1 val)
  then show ?case by simp
next
  case (2 key score mapping val)
  show ?case
  proof (cases i)
    case 0
    with 2 show ?thesis by simp
  next
    case (Suc k)
    have "\<not> startswith val key" using 2(4) Suc by force
    moreover have "first_match mapping val = snd (mapping ! k)"
    proof (rule 2(1))
      show "\<not> startswith val key" by fact
      show "k < length mapping" using 2(2) Suc by simp
      show "startswith val (fst (mapping ! k))" using 2(3) Suc by simp
      show "\<forall>j<k. \<not> startswith val (fst (mapping ! j))" using 2(4) Suc by force
    qed
    ultimately show ?thesis using Suc by simp
  qed
qed

lemma first_match_range:
  "list_all (\<lambda>e. 0 \<le> snd e \<and> snd e \<le> 100) mapping \<Longrightarrow>
   0 \<le> first_match mapping val \<and> first_match mapping val \<le> 100"
  by (induction mapping val rule: first_match.induct) auto

lemma SCORE_MAPPINGS_range:
  "list_all (\<lambda>entry. list_all (\<lambda>e. 0 \<le> snd e \<and> snd e \<le> 100) (snd entry)) SCORE_MAPPINGS"
  by code_simp

lemma get_score_range: "0 \<le> get_score attribute val \<and> get_score attribute val \<le> 100"
proof (cases "map_of SCORE_MAPPINGS attribute")
  case None
  then show ?thesis by (simp add: get_score_def)
next
  case (Some mapping)
  then have "(attribute, mapping) \<in> set SCORE_MAPPINGS" by (rule map_of_SomeD)
  then have "list_all (\<lambda>e. 0 \<le> snd e \<and> snd e \<le> 100) mapping"
    using SCORE_MAPPINGS_range unfolding list_all_iff by force
  then show ?thesis using Some first_match_range by (simp add: get_score_def)
qed

text \<open>
  C5. For a metric key of the score table and any answer, \<^const>\<open>get_score\<close> returns the score
  of the first entry of the key's mapping, in the order of declaration, whose phrase is a
  prefix of the lower-cased answer, and 0 when no phrase is; the score is an integer from 0
  to 100; and \<open>get_score('readability', 'Highly Readable')\<close> is 100.
\<close>

theorem get_score_first_prefix_match:
  assumes "map_of SCORE_MAPPINGS attribute = Some mapping"
  shows "(\<forall>i<length mapping.
            startswith (lower val) (fst (mapping ! i))
            \<and> (\<forall>j<i. \<not> startswith (lower val) (fst (mapping ! j)))
            \<longrightarrow> get_score attribute val = snd (mapping ! i))
         \<and> ((\<forall>e\<in>set mapping. \<not> startswith (lower val) (fst e)) \<longrightarrow> get_score attribute val = 0)
         \<and> 0 \<le> get_score attribute val \<and> get_score attribute val \<le> 100
         \<and> get_score ''readability'' ''Highly Readable'' = 100"
proof (intro conjI allI impI)
  fix i
  assume "i < length mapping"
    and "startswith (lower val) (fst (mapping ! i))
         \<and> (\<forall>j<i. \<not> startswith (lower val) (fst (mapping ! j)))"
  then show "get_score attribute val = snd (mapping ! i)"
    using assms first_match_first[of i mapping "lower val"] by (simp add: get_score_def)
next
  assume "\<forall>e\<in>set mapping. \<not> startswith (lower val) (fst e)"
  then show "get_score attribute val = 0"
    using assms first_match_no_match[of mapping "lower val"] by (simp add: get_score_def)
next
  show "0 \<le> get_score attribute val" "get_score attribute val \<le> 100"
    using get_score_range[of attribute val] by simp_all
next
  show "get_score ''readability'' ''Highly Readable'' = 100" by code_simp
qed

theorem get_score_first_prefix_match_witness:
  "map_of SCORE_MAPPINGS ''readability'' =
     Some [(''highly readable'', 100), (''moderately readable'', 50), (''low readability'', 0)]
   \<and> startswith (lower ''Moderately readable, mostly'') ''moderately readable''
   \<and> \<not> startswith (lower ''Moderately readable, mostly'') ''highly readable''
   \<and> get_score ''readability'' ''Moderately readable, mostly'' = 50
   \<and> get_score ''readability'' ''Unclear'' = 0"
proof -
  let ?m = "[(''highly readable'', 100 :: int), (''moderately readable'', 50), (''low readability'', 0)]"
  have m: "map_of SCORE_MAPPINGS ''readability'' = Some ?m" by code_simp
  have l1: "lower ''Moderately readable, mostly'' = ''moderately readable, mostly''" by code_simp
  have l2: "lower ''Unclear'' = ''unclear''" by code_simp
  have s1: "startswith (lower ''Moderately readable, mostly'') ''moderately readable''"
    unfolding l1 by (simp add: startswith_def)
  have s0: "\<not> startswith (lower ''Moderately readable, mostly'') ''highly readable''"
    unfolding l1 by (simp add: startswith_def)
  have "get_score ''readability'' ''Moderately readable, mostly'' = snd (?m ! 1)"
  proof (rule get_score_first_prefix_match[OF m, THEN conjunct1, rule_format, of 1])
    show "1 < length ?m" by simp
    show "startswith (lower ''Moderately readable, mostly'') (fst (?m ! 1))
          \<and> (\<forall>j<1. \<not> startswith (lower ''Moderately readable, mostly'') (fst (?m ! j)))"
      using s1 s0 by simp
  qed
  then have g1: "get_score ''readability'' ''Moderately readable, mostly'' = 50" by simp
  have g2: "get_score ''readability'' ''Unclear'' = 0"
  proof (rule get_score_first_prefix_match[OF m, THEN conjunct2, THEN conjunct1, rule_format])
    fix e
    assume "e \<in> set ?m"
    then show "\<not> startswith (lower ''Unclear'') (fst e)"
      unfolding l2 by (auto simp: startswith_def)
  qed
  show ?thesis by (intro conjI m s1 s0 g1 g2)
qed

section \<open>Properties of the schema\<close>

lemma schema_keys_distinct: "distinct (map fst schema_mapping)"
  by code_simp

lemma schema_labels_distinct: "distinct (map snd schema_mapping)"
  by code_simp

lemma schema_label_prefix_all:
  "\<forall>a\<in>set (map snd schema_mapping). \<forall>b\<in>set (map snd schema_mapping).
     prefix a b \<longrightarrow> a = b \<or> (a = ''0.'' \<and> b = ''0.1.'')"
  by (simp add: schema_mapping_def)

lemma schema_label_prefix:
  assumes "a \<in> set (map snd schema_mapping)" "b \<in> set (map snd schema_mapping)" "prefix a b"
  shows "a = b \<or> (a = ''0.'' \<and> b = ''0.1.'')"
  using schema_label_prefix_all assms by blast

lemma schema_first_labels:
  "snd (schema_mapping ! 0) = ''0.'' \<and> snd (schema_mapping ! 1) = ''0.1.'' \<and> 1 < length schema_mapping"
  by (simp add: schema_mapping_def)

text \<open>
  C7, as the code has it. In the schema mapping of both variants every key has exactly one
  section label and the labels are pairwise different. The labels are not free of prefixes:
  \<open>0.\<close> is a prefix of \<open>0.1.\<close>, and that is the only pair. So no label is a prefix of a label
  declared before it, and a line that starts with two different labels of the schema starts
  with \<open>0.\<close> and \<open>0.1.\<close>: the lookup of every label but \<open>0.\<close> finds only lines of its own
  entry.
\<close>

theorem schema_labels_prefix_free_but_one:
  "distinct (map fst schema_mapping)
   \<and> distinct (map snd schema_mapping)
   \<and> (\<forall>a\<in>set (map snd schema_mapping). \<forall>b\<in>set (map snd schema_mapping).
         prefix a b \<longrightarrow> a = b \<or> (a = ''0.'' \<and> b = ''0.1.''))
   \<and> (\<forall>i<length schema_mapping. \<forall>j<i.
         \<not> prefix (snd (schema_mapping ! i)) (snd (schema_mapping ! j)))
   \<and> (\<forall>line. \<forall>a\<in>set (map snd schema_mapping). \<forall>b\<in>set (map snd schema_mapping).
         startswith line a \<and> startswith line b \<and> a \<noteq> b \<longrightarrow> {a, b} = {''0.'', ''0.1.''})"
proof (intro conjI allI ballI impI)
  show "distinct (map fst schema_mapping)" by (rule schema_keys_distinct)
  show "distinct (map snd schema_mapping)" by (rule schema_labels_distinct)
next
  fix a b
  assume "a \<in> set (map snd schema_mapping)" "b \<in> set (map snd schema_mapping)" "prefix a b"
  then show "a = b \<or> (a = ''0.'' \<and> b = ''0.1.'')" by (rule schema_label_prefix)
next
  fix i j
  assume i: "i < length schema_mapping" and j: "j < i"
  let ?ls = "map snd schema_mapping"
  show "\<not> prefix (snd (schema_mapping ! i)) (snd (schema_mapping ! j))"
  proof
    assume p: "prefix (snd (schema_mapping ! i)) (snd (schema_mapping ! j))"
    have li: "?ls ! i = snd (schema_mapping ! i)" and lj: "?ls ! j = snd (schema_mapping ! j)"
      using i j by simp_all
    have mi: "?ls ! i \<in> set ?ls" by (rule nth_mem) (use i in simp)
    have mj: "?ls ! j \<in> set ?ls" by (rule nth_mem) (use i j in simp)
    have "i < length ?ls" "j < length ?ls" "i \<noteq> j" using i j by simp_all
    then have ne: "?ls ! i \<noteq> ?ls ! j"
      using nth_eq_iff_index_eq[OF schema_labels_distinct, of i j] by blast
    have "prefix (?ls ! i) (?ls ! j)" using p by (simp only: li lj)
    from schema_label_prefix[OF mi mj this] ne
    have "?ls ! i = ''0.''" by blast
    moreover have "?ls ! 0 = ''0.''" by (simp add: schema_mapping_def)
    ultimately have "?ls ! i = ?ls ! 0" by simp
    moreover have "i < length ?ls" "0 < length ?ls" using i by auto
    ultimately have "i = 0"
      using nth_eq_iff_index_eq[OF schema_labels_distinct, of i 0] by blast
    then show False using j by simp
  qed
next
  fix line a b
  assume a: "a \<in> set (map snd schema_mapping)" and b: "b \<in> set (map snd schema_mapping)"
    and s: "startswith line a \<and> startswith line b \<and> a \<noteq> b"
  then have "prefix a line" "prefix b line" "a \<noteq> b" by (simp_all add: startswith_def)
  then have "prefix a b \<or> prefix b a" using prefix_same_cases by blast
  then have "(a = ''0.'' \<and> b = ''0.1.'') \<or> (b = ''0.'' \<and> a = ''0.1.'')"
    using schema_label_prefix[OF a b] schema_label_prefix[OF b a] \<open>a \<noteq> b\<close> by blast
  then show "{a, b} = {''0.'', ''0.1.''}" by (elim disjE conjE) (simp_all only: insert_commute)
qed

theorem schema_labels_prefix_free_but_one_witness:
  "''4.1.'' \<in> set (map snd schema_mapping) \<and> ''4.10.'' \<in> set (map snd schema_mapping)
   \<and> \<not> prefix ''4.1.'' ''4.10.''
   \<and> snd (schema_mapping ! 1) = ''0.1.'' \<and> snd (schema_mapping ! 0) = ''0.''
   \<and> \<not> prefix (snd (schema_mapping ! 1)) (snd (schema_mapping ! 0))"
proof -
  note T = schema_labels_prefix_free_but_one
  have a: "''4.1.'' \<in> set (map snd schema_mapping)" by code_simp
  have b: "''4.10.'' \<in> set (map snd schema_mapping)" by code_simp
  have "prefix ''4.1.'' ''4.10.'' \<longrightarrow> ''4.1.'' = ''4.10.'' \<or> (''4.1.'' = ''0.'' \<and> ''4.10.'' = ''0.1.'')"
    by (rule T[THEN conjunct2, THEN conjunct2, THEN conjunct1, rule_format, OF a b, THEN impI])
  then have c: "\<not> prefix ''4.1.'' ''4.10.''" by auto
  have d: "\<not> prefix (snd (schema_mapping ! 1)) (snd (schema_mapping ! 0))"
    by (rule T[THEN conjunct2, THEN conjunct2, THEN conjunct2, THEN conjunct1, rule_format, of 1 0])
       (use schema_first_labels in simp_all)
  show ?thesis using a b c d schema_first_labels by simp
qed

text \<open>
  C7 as stated has no label a prefix of another. The label \<open>0.\<close> of \<open>is_script\<close> is a prefix of
  the label \<open>0.1.\<close> of \<open>is_script_explanation\<close>, and a line of the second entry is found by
  the lookup of the first.
\<close>

theorem schema_label_is_prefix_of_another:
  "map_of schema_mapping ''is_script'' = Some ''0.''
   \<and> map_of schema_mapping ''is_script_explanation'' = Some ''0.1.''
   \<and> prefix ''0.'' ''0.1.''
   \<and> startswith ''0.1. Explanation: a data file'' ''0.''
   \<and> raw_answer ''0.1. Explanation: a data file'' ''0.'' = Some ''a data file''"
  by code_simp

section \<open>Properties of the gate\<close>

lemma after_colon_eq:
  "after_colon line =
     (if CHR '':'' \<in> set line then Some (tl (dropWhile (\<lambda>c. c \<noteq> CHR '':'') line)) else None)"
  by (simp add: after_colon_def split_once_def)

lemma after_colon_split:
  "CHR '':'' \<notin> set before \<Longrightarrow> after_colon (before @ CHR '':'' # answer) = Some answer"
proof -
  assume "CHR '':'' \<notin> set before"
  then have "dropWhile (\<lambda>c. c \<noteq> CHR '':'') before = []"
    by auto
  then show ?thesis by (simp add: after_colon_eq dropWhile_append)
qed

lemma startswith_truthy:
  "find (\<lambda>line. startswith line label) ls = Some l \<Longrightarrow> label \<noteq> [] \<Longrightarrow> truthy (Some l)"
  by (auto simp: truthy_def startswith_def find_Some_iff)

lemma is_script_gate_no:
  assumes "find (\<lambda>line. startswith line ''0.'') ls = Some gate_line"
    and "after_colon gate_line = Some answer"
    and "lower (strip answer) = ''no''"
  shows "is_script_gate ls =
     Some ([(''is_script'', PyStr ''no''),
            (''is_script_explanation'',
             PyStr (case find (\<lambda>line. startswith line ''0.1.'') ls of
                      None \<Rightarrow> ''N/A''
                    | Some l \<Rightarrow> (case after_colon l of None \<Rightarrow> ''N/A'' | Some e \<Rightarrow> strip e)))], 0)"
proof -
  have t: "truthy (Some gate_line)" using assms(1) by (rule startswith_truthy) simp
  show ?thesis
  proof (cases "find (\<lambda>line. startswith line ''0.1.'') ls")
    case None
    then show ?thesis using assms t by (simp add: is_script_gate_def Let_def truthy_def)
  next
    case (Some l)
    then have "truthy (Some l)" by (rule startswith_truthy) simp
    then show ?thesis using assms t Some by (simp add: is_script_gate_def Let_def)
  qed
qed

text \<open>
  C9. When the first line that starts with \<open>0.\<close> has a colon and the text after its first
  colon, stripped and lower-cased, is \<open>no\<close>, both variants of \<^verbatim>\<open>parse_audit_response\<close> return
  at once: the mapping has the two entries \<open>is_script = no\<close> and \<open>is_script_explanation\<close>
  and nothing else, and the count of \<open>None\<close> answers is 0. The explanation is the stripped
  text after the first colon of the first line that starts with \<open>0.1.\<close>, and \<open>N/A\<close> when
  there is no such line or it has no colon.
\<close>

theorem parse_audit_response_not_a_script:
  assumes "find (\<lambda>line. startswith line ''0.'') (split_on CHR 0x0A response_text) = Some gate_line"
    and "gate_line = before @ CHR '':'' # answer" "CHR '':'' \<notin> set before"
    and "lower (strip answer) = ''no''"
    and "explanation =
           (case find (\<lambda>line. startswith line ''0.1.'') (split_on CHR 0x0A response_text) of
              None \<Rightarrow> ''N/A''
            | Some l \<Rightarrow>
                (if CHR '':'' \<in> set l then strip (tl (dropWhile (\<lambda>c. c \<noteq> CHR '':'') l)) else ''N/A''))"
  shows "parse_audit_response parse_time_to_fix response_text =
           ([(''is_script'', PyStr ''no''), (''is_script_explanation'', PyStr explanation)], 0)
         \<and> parse_audit_response_num response_text =
           ([(''is_script'', PyStr ''no''), (''is_script_explanation'', PyStr explanation)], 0)"
proof -
  have ac: "after_colon gate_line = Some answer"
    using assms(2,3) by (simp add: after_colon_split)
  have e: "explanation =
      (case find (\<lambda>line. startswith line ''0.1.'') (split_on CHR 0x0A response_text) of
         None \<Rightarrow> ''N/A''
       | Some l \<Rightarrow> (case after_colon l of None \<Rightarrow> ''N/A'' | Some e \<Rightarrow> strip e))"
    unfolding assms(5) by (simp add: after_colon_eq split: option.splits)
  have g: "is_script_gate (split_on CHR 0x0A response_text) =
      Some ([(''is_script'', PyStr ''no''), (''is_script_explanation'', PyStr explanation)], 0)"
    unfolding e by (rule is_script_gate_no[OF assms(1) ac assms(4)])
  show ?thesis using g by (simp add: parse_audit_response_def parse_audit_response_num_def)
qed

theorem parse_audit_response_not_a_script_witness:
  "find (\<lambda>line. startswith line ''0.'')
     (split_on CHR 0x0A (''0. Is this analyzable code? (Yes / No): No'' @ CHR 0x0A # ''0.1. Explanation: a data file''))
     = Some ''0. Is this analyzable code? (Yes / No): No''
   \<and> CHR '':'' \<notin> set ''0. Is this analyzable code? (Yes / No)''
   \<and> lower (strip '' No'') = ''no''
   \<and> parse_audit_response (\<lambda>text. PyNone)
        (''0. Is this analyzable code? (Yes / No): No'' @ CHR 0x0A # ''0.1. Explanation: a data file'')
       = ([(''is_script'', PyStr ''no''), (''is_script_explanation'', PyStr ''a data file'')], 0)
   \<and> parse_audit_response_num
        (''0. Is this analyzable code? (Yes / No): No'' @ CHR 0x0A # ''0.1. Explanation: a data file'')
       = ([(''is_script'', PyStr ''no''), (''is_script_explanation'', PyStr ''a data file'')], 0)"
proof -
  let ?t = "''0. Is this analyzable code? (Yes / No): No'' @ CHR 0x0A # ''0.1. Explanation: a data file''"
  have ls: "split_on CHR 0x0A ?t =
      [''0. Is this analyzable code? (Yes / No): No'', ''0.1. Explanation: a data file'']"
    by code_simp
  have f: "find (\<lambda>line. startswith line ''0.'') (split_on CHR 0x0A ?t)
      = Some ''0. Is this analyzable code? (Yes / No): No''"
    unfolding ls by (simp add: startswith_def)
  have g: "''0. Is this analyzable code? (Yes / No): No''
      = ''0. Is this analyzable code? (Yes / No)'' @ CHR '':'' # '' No''" by simp
  have c: "CHR '':'' \<notin> set ''0. Is this analyzable code? (Yes / No)''" by simp
  have n: "lower (strip '' No'') = ''no''" by code_simp
  have e: "''a data file'' =
      (case find (\<lambda>line. startswith line ''0.1.'') (split_on CHR 0x0A ?t) of
         None \<Rightarrow> ''N/A''
       | Some l \<Rightarrow>
           (if CHR '':'' \<in> set l then strip (tl (dropWhile (\<lambda>c. c \<noteq> CHR '':'') l)) else ''N/A''))"
    unfolding ls by code_simp
  note T = parse_audit_response_not_a_script[OF f g c n e]
  show ?thesis using f c n T by blast
qed

section \<open>Properties of the parsed mapping\<close>

lemma set_dict_keys_dict_set: "set (dict_keys (dict_set k v d)) = insert k (set (dict_keys d))"
  by (induction d) (auto simp: dict_keys_def)

lemma dict_keys_dict_set_new:
  "k \<notin> set (dict_keys d) \<Longrightarrow> dict_keys (dict_set k v d) = dict_keys d @ [k]"
  by (induction d) (auto simp: dict_keys_def)

lemma fst_parse_response_line:
  "fst (parse_response_line ttf response_text key label dflt b) = key"
  by (simp add: parse_response_line_def Let_def split: option.splits)

lemma parse_section_keys:
  "set (dict_keys (fst (parse_section ttf response_text st entry)))
     \<subseteq> insert (fst entry) (set (dict_keys (fst st)))"
  by (auto simp: parse_section_def Let_def set_dict_keys_dict_set fst_parse_response_line)

lemma parse_sections_keys:
  "set (dict_keys (fst (parse_sections ttf response_text schema st)))
     \<subseteq> set (dict_keys (fst st)) \<union> set (map fst schema)"
proof (induction schema arbitrary: st)
  case Nil
  then show ?case by (simp add: parse_sections_def)
next
  case (Cons entry schema)
  have "set (dict_keys (fst (parse_sections ttf response_text schema
               (parse_section ttf response_text st entry))))
          \<subseteq> set (dict_keys (fst (parse_section ttf response_text st entry))) \<union> set (map fst schema)"
    by (rule Cons.IH)
  then show ?case
    using parse_section_keys[of ttf response_text st entry]
    by (auto simp: parse_sections_def)
qed






text \<open>The loop of the textual variant skips no entry and sets every key of the schema.\<close>

lemma parse_section_no_skip:
  assumes "fst entry \<notin> set (dict_keys data)"
  shows "parse_section ttf response_text (data, n) entry =
     (dict_set (fst entry)
        (snd (parse_response_line ttf response_text (fst entry) (strip (snd entry)) PyNone
                (fst entry = ''time_to_fix_flag''))) data,
      if snd (parse_response_line ttf response_text (fst entry) (strip (snd entry)) PyNone
                (fst entry = ''time_to_fix_flag'')) = PyStr ''None''
      then n + 1 else n)"
  using assms
  by (auto simp: parse_section_def Let_def fst_parse_response_line dict_has_def)

lemma parse_sections_fresh:
  assumes "distinct (map fst schema)" "set (map fst schema) \<inter> set (dict_keys data) = {}"
  shows "dict_keys (fst (parse_sections ttf response_text schema (data, n))) = dict_keys data @ map fst schema
     \<and> snd (parse_sections ttf response_text schema (data, n)) =
         n + length (filter (\<lambda>entry.
               snd (parse_response_line ttf response_text (fst entry) (strip (snd entry)) PyNone
                      (fst entry = ''time_to_fix_flag'')) = PyStr ''None'') schema)"
  using assms
proof (induction schema arbitrary: data n)
  case Nil
  then show ?case by (simp add: parse_sections_def)
next
  case (Cons entry schema)
  let ?v = "snd (parse_response_line ttf response_text (fst entry) (strip (snd entry)) PyNone
                   (fst entry = ''time_to_fix_flag''))"
  let ?d = "dict_set (fst entry) ?v data"
  let ?n = "if ?v = PyStr ''None'' then n + 1 else n"
  have fresh: "fst entry \<notin> set (dict_keys data)" using Cons.prems(2) by auto
  have step: "parse_section ttf response_text (data, n) entry = (?d, ?n)"
    by (rule parse_section_no_skip[OF fresh])
  have keys: "dict_keys ?d = dict_keys data @ [fst entry]"
    by (rule dict_keys_dict_set_new[OF fresh])
  have d1: "distinct (map fst schema)" using Cons.prems(1) by simp
  have d2: "set (map fst schema) \<inter> set (dict_keys ?d) = {}"
    using Cons.prems keys by auto
  have unfold: "parse_sections ttf response_text (entry # schema) (data, n)
      = parse_sections ttf response_text schema (?d, ?n)"
    using step by (simp add: parse_sections_def)
  show ?case
    unfolding unfold using Cons.IH[OF d1 d2, of ?n] keys by simp
qed

lemma schema_labels_stripped: "list_all (\<lambda>entry. strip (snd entry) = snd entry) schema_mapping"
  by code_simp

lemma schema_no_time_to_fix: "''time_to_fix_flag'' \<notin> set (map fst schema_mapping)"
  by (simp add: schema_mapping_def)

lemma parse_response_line_raw:
  "snd (parse_response_line ttf response_text key label PyNone False) =
     (case raw_answer response_text label of
        None \<Rightarrow> PyNone
      | Some a \<Rightarrow> PyStr (if key = ''domain'' then sanitize_domain a else sanitize_text a))"
  by (simp add: parse_response_line_def raw_answer_def Let_def split: option.splits)

lemma schema_entry_value:
  assumes "entry \<in> set schema_mapping"
  shows "snd (parse_response_line ttf response_text (fst entry) (strip (snd entry)) PyNone
                (fst entry = ''time_to_fix_flag''))
         = (case sanitized_answer response_text (fst entry) of None \<Rightarrow> PyNone | Some a \<Rightarrow> PyStr a)"
proof -
  have s: "strip (snd entry) = snd entry"
    using schema_labels_stripped assms by (simp add: list_all_iff)
  have t: "fst entry \<noteq> ''time_to_fix_flag''"
    using schema_no_time_to_fix assms by force
  have "distinct (map fst schema_mapping)" by (simp add: schema_mapping_def)
  then have m: "map_of schema_mapping (fst entry) = Some (snd entry)"
    using assms by simp
  show ?thesis
    unfolding s using t m
    by (simp add: parse_response_line_raw sanitized_answer_def split: option.splits)
qed

lemma parse_audit_response_open:
  assumes "is_script_gate (split_on CHR 0x0A response_text) = None"
  shows "dict_keys (fst (parse_audit_response ttf response_text)) = dict_keys schema_mapping"
    and "snd (parse_audit_response ttf response_text) =
           length (filter (\<lambda>entry. sanitized_answer response_text (fst entry) = Some ''None'')
                     schema_mapping)"
proof -
  have d: "distinct (map fst schema_mapping)" by (simp add: schema_mapping_def)
  have e: "set (map fst schema_mapping) \<inter> set (dict_keys ([] :: audit_data)) = {}"
    by (simp add: dict_keys_def)
  note F = parse_sections_fresh[OF d e, of ttf response_text 0]
  have p: "parse_audit_response ttf response_text
      = parse_sections ttf response_text schema_mapping ([], 0)"
    using assms by (simp add: parse_audit_response_def)
  show "dict_keys (fst (parse_audit_response ttf response_text)) = dict_keys schema_mapping"
    unfolding p using F by (simp add: dict_keys_def)
  have "filter (\<lambda>entry.
               snd (parse_response_line ttf response_text (fst entry) (strip (snd entry)) PyNone
                      (fst entry = ''time_to_fix_flag'')) = PyStr ''None'') schema_mapping
        = filter (\<lambda>entry. sanitized_answer response_text (fst entry) = Some ''None'') schema_mapping"
    by (rule filter_cong[OF refl]) (simp add: schema_entry_value split: option.splits)
  then show "snd (parse_audit_response ttf response_text) =
           length (filter (\<lambda>entry. sanitized_answer response_text (fst entry) = Some ''None'')
                     schema_mapping)"
    unfolding p using F by simp
qed





lemma filter_length_mono:
  "(\<And>x. x \<in> set xs \<Longrightarrow> P x \<Longrightarrow> Q x) \<Longrightarrow> length (filter P xs) \<le> length (filter Q xs)"
  by (induction xs) auto

lemma sanitize_None: "sanitize_text ''None'' = ''None'' \<and> sanitize_domain ''None'' = ''None''"
  by code_simp

lemma none_answers_le:
  "none_answers response_text
     \<le> length (filter (\<lambda>entry. sanitized_answer response_text (fst entry) = Some ''None'')
                 schema_mapping)"
  unfolding none_answers_def
proof (rule filter_length_mono)
  fix entry
  assume e: "entry \<in> set schema_mapping"
    and r: "raw_answer response_text (snd entry) = Some ''None''"
  have "distinct (map fst schema_mapping)" by (simp add: schema_mapping_def)
  then have "map_of schema_mapping (fst entry) = Some (snd entry)" using e by simp
  then show "sanitized_answer response_text (fst entry) = Some ''None''"
    using r sanitize_None by (simp add: sanitized_answer_def)
qed




text \<open>
  C8, as the code has it, for the textual variant. When the gate does not return early, the
  count that \<^const>\<open>parse_audit_response\<close> returns is the number of schema fields whose answer,
  after the sanitizing of the field, is the string \<open>None\<close>. It counts every field whose raw
  answer is \<open>None\<close>, and may count more.
\<close>

theorem parse_audit_response_none_count:
  assumes "is_script_gate (split_on CHR 0x0A response_text) = None"
  shows "snd (parse_audit_response parse_time_to_fix response_text) =
           length (filter (\<lambda>entry. sanitized_answer response_text (fst entry) = Some ''None'')
                     schema_mapping)
         \<and> none_answers response_text \<le> snd (parse_audit_response parse_time_to_fix response_text)"
  using parse_audit_response_open(2)[OF assms, of parse_time_to_fix] none_answers_le[of response_text]
  by simp

theorem parse_audit_response_none_count_witness:
  "is_script_gate (split_on CHR 0x0A (''2.1. Readability: None'' @ CHR 0x0A # ''5.4. Dependencies: [None]'')) = None
   \<and> snd (parse_audit_response (\<lambda>text. PyNone)
            (''2.1. Readability: None'' @ CHR 0x0A # ''5.4. Dependencies: [None]'')) = 2
   \<and> none_answers (''2.1. Readability: None'' @ CHR 0x0A # ''5.4. Dependencies: [None]'') = 1"
proof -
  let ?t = "''2.1. Readability: None'' @ CHR 0x0A # ''5.4. Dependencies: [None]''"
  have g: "is_script_gate (split_on CHR 0x0A ?t) = None" by code_simp
  have c: "length (filter (\<lambda>entry. sanitized_answer ?t (fst entry) = Some ''None'') schema_mapping) = 2"
    by code_simp
  have n: "none_answers ?t = 1" by code_simp
  have "snd (parse_audit_response (\<lambda>text. PyNone) ?t) = 2"
    using parse_audit_response_none_count[OF g, of "\<lambda>text. PyNone"] c by simp
  then show ?thesis using g n by simp
qed

text \<open>
  C8 as stated counts the raw answers that are \<open>None\<close>, in both variants. The textual variant
  counts the answer \<open>None.\<close>, which is \<open>None\<close> only after the sanitizing; the numerical
  variant never changes its count and returns 0 for a raw answer \<open>None\<close>.
\<close>

theorem parse_audit_response_count_differs:
  "is_script_gate (split_on CHR 0x0A ''2.1. Readability: None.'') = None
   \<and> snd (parse_audit_response (\<lambda>text. PyNone) ''2.1. Readability: None.'') = 1
   \<and> none_answers ''2.1. Readability: None.'' = 0
   \<and> is_script_gate (split_on CHR 0x0A ''5.4. Dependencies: None'') = None
   \<and> snd (parse_audit_response_num ''5.4. Dependencies: None'') = 0
   \<and> none_answers ''5.4. Dependencies: None'' = 1"
  by code_simp

end
